theory Spec2Isabelle
  imports Complex_Main
begin

section \<open>JavaScript numbers\<close>

text \<open>
  The geometry functions of \<^verbatim>\<open>app/lib/core/inference.server.ts\<close> compute on the
  TypeScript type \<^verbatim>\<open>number\<close>. A number is modelled as a finite value or one of the
  three special values of IEEE 754 arithmetic. Arithmetic on finite values is exact
  (a finite result is a real number, it is neither rounded nor does it overflow), and
  the special values follow the IEEE rules that JavaScript applies: a division by zero
  does not raise, it yields an infinity or \<open>NaN\<close>, and \<open>NaN\<close> propagates and compares
  false. The sign of a zero is not modelled: every zero divisor is the positive zero,
  which is what a difference \<open>x - x\<close> of equal finite numbers is.
\<close>

datatype number = Fin real | PosInf | NegInf | NaN

fun is_finite :: "number \<Rightarrow> bool" where
  "is_finite (Fin x) = True"
| "is_finite _ = False"

fun num_neg :: "number \<Rightarrow> number" where
  "num_neg (Fin x) = Fin (- x)"
| "num_neg PosInf = NegInf"
| "num_neg NegInf = PosInf"
| "num_neg NaN = NaN"

fun num_add :: "number \<Rightarrow> number \<Rightarrow> number" where
  "num_add NaN _ = NaN"
| "num_add _ NaN = NaN"
| "num_add (Fin x) (Fin y) = Fin (x + y)"
| "num_add PosInf NegInf = NaN"
| "num_add NegInf PosInf = NaN"
| "num_add PosInf _ = PosInf"
| "num_add NegInf _ = NegInf"
| "num_add (Fin x) PosInf = PosInf"
| "num_add (Fin x) NegInf = NegInf"

definition num_sub :: "number \<Rightarrow> number \<Rightarrow> number" where
  "num_sub a b = num_add a (num_neg b)"

text \<open>The infinity with the sign of \<open>s\<close>; a zero times an infinity is \<open>NaN\<close>.\<close>

definition signed_inf :: "real \<Rightarrow> number" where
  "signed_inf s = (if s = 0 then NaN else if 0 < s then PosInf else NegInf)"

fun num_mul :: "number \<Rightarrow> number \<Rightarrow> number" where
  "num_mul NaN _ = NaN"
| "num_mul _ NaN = NaN"
| "num_mul (Fin x) (Fin y) = Fin (x * y)"
| "num_mul (Fin x) PosInf = signed_inf x"
| "num_mul (Fin x) NegInf = signed_inf (- x)"
| "num_mul PosInf (Fin y) = signed_inf y"
| "num_mul NegInf (Fin y) = signed_inf (- y)"
| "num_mul PosInf PosInf = PosInf"
| "num_mul NegInf NegInf = PosInf"
| "num_mul PosInf NegInf = NegInf"
| "num_mul NegInf PosInf = NegInf"

fun num_div :: "number \<Rightarrow> number \<Rightarrow> number" where
  "num_div NaN _ = NaN"
| "num_div _ NaN = NaN"
| "num_div (Fin x) (Fin y) = (if y = 0 then signed_inf x else Fin (x / y))"
| "num_div (Fin x) PosInf = Fin 0"
| "num_div (Fin x) NegInf = Fin 0"
| "num_div PosInf (Fin y) = (if 0 \<le> y then PosInf else NegInf)"
| "num_div NegInf (Fin y) = (if 0 \<le> y then NegInf else PosInf)"
| "num_div _ _ = NaN"

text \<open>The comparison operators \<^verbatim>\<open><\<close>, \<^verbatim>\<open>>\<close>, \<^verbatim>\<open><=\<close>: false as soon as an operand is \<open>NaN\<close>.\<close>

fun num_lt :: "number \<Rightarrow> number \<Rightarrow> bool" where
  "num_lt NaN _ = False"
| "num_lt _ NaN = False"
| "num_lt (Fin x) (Fin y) = (x < y)"
| "num_lt _ NegInf = False"
| "num_lt PosInf _ = False"
| "num_lt NegInf _ = True"
| "num_lt (Fin x) PosInf = True"

definition num_gt :: "number \<Rightarrow> number \<Rightarrow> bool" where
  "num_gt a b = num_lt b a"

definition num_le :: "number \<Rightarrow> number \<Rightarrow> bool" where
  "num_le a b = (a \<noteq> NaN \<and> b \<noteq> NaN \<and> \<not> num_lt b a)"

text \<open>\<^verbatim>\<open>Math.max\<close> and \<^verbatim>\<open>Math.min\<close> of two arguments return \<open>NaN\<close> when one of them is.\<close>

definition Math_max :: "number \<Rightarrow> number \<Rightarrow> number" where
  "Math_max a b = (if a = NaN \<or> b = NaN then NaN else if num_lt a b then b else a)"

definition Math_min :: "number \<Rightarrow> number \<Rightarrow> number" where
  "Math_min a b = (if a = NaN \<or> b = NaN then NaN else if num_lt b a then b else a)"

text \<open>\<^verbatim>\<open>Math.round\<close> rounds to the nearest integer, a half towards plus infinity.\<close>

fun Math_round :: "number \<Rightarrow> number" where
  "Math_round (Fin x) = Fin (of_int \<lfloor>x + 1 / 2\<rfloor>)"
| "Math_round a = a"

section \<open>Data model\<close>

type_synonym BBox = "number \<times> number \<times> number \<times> number"

type_synonym Vector2 = "number \<times> number"

text \<open>The crop window \<^verbatim>\<open>sharp.Region\<close>.\<close>

record Region =
  left :: number
  top' :: number
  width :: number
  height :: number

text \<open>One element of \<^verbatim>\<open>FaceDetectionOutput\<close>.\<close>

record Face =
  embedding :: "number list"
  bbox :: BBox
  det_score :: number
  gender :: number
  age :: number

text \<open>
  \<^verbatim>\<open>Array.prototype.reduce\<close> without an initial value: the first element starts the
  accumulator, and an empty array throws a \<^verbatim>\<open>TypeError\<close>.
\<close>

datatype error = TypeError

fun reduce :: "('a \<Rightarrow> 'a \<Rightarrow> 'a) \<Rightarrow> 'a list \<Rightarrow> error + 'a" where
  "reduce f [] = Inl TypeError"
| "reduce f (x # xs) = Inr (foldl f x xs)"

section \<open>Bounding-box arithmetic\<close>

definition getBBoxArea :: "BBox \<Rightarrow> number" where
  "getBBoxArea b = (case b of (x1, y1, x2, y2) \<Rightarrow>
     num_mul (num_sub x2 x1) (num_sub y2 y1))"

definition extractBiggestFace :: "Face list \<Rightarrow> error + Face" where
  "extractBiggestFace faces = reduce (\<lambda>prev curr.
     let prevArea = getBBoxArea (bbox prev);
         currArea = getBBoxArea (bbox curr)
     in if num_gt prevArea currArea then prev else curr) faces"

definition clipBBox :: "BBox \<Rightarrow> number \<Rightarrow> number \<Rightarrow> BBox" where
  "clipBBox b imageWidth imageHeight = (case b of (x1, y1, x2, y2) \<Rightarrow>
     let new_x1 = Math_max (Fin 0) (Math_min x1 imageWidth);
         new_y1 = Math_max (Fin 0) (Math_min y1 imageHeight);
         new_x2 = Math_max (Fin 0) (Math_min x2 imageWidth);
         new_y2 = Math_max (Fin 0) (Math_min y2 imageHeight)
     in (new_x1, new_y1, new_x2, new_y2))"



section \<open>Position of a box as an interpolant\<close>


definition getAlphaFromBBox :: "BBox \<Rightarrow> number \<Rightarrow> number \<Rightarrow> Vector2" where
  "getAlphaFromBBox b imageWidth imageHeight = (case b of (x1, y1, x2, y2) \<Rightarrow>
     let sizeX = num_sub x2 x1;
         sizeY = num_sub y2 y1;
         alphaX = num_div x1 (num_sub imageWidth sizeX);
         alphaY = num_div y1 (num_sub imageHeight sizeY)
     in (alphaX, alphaY))"

text \<open>
  \<^verbatim>\<open>shiftCoordinates\<close> assigns to its four local variables in four successive
  \<^verbatim>\<open>if\<close> statements; each \<open>let\<close> below is one of them, in the order of the source.
\<close>

definition shiftCoordinates :: "BBox \<Rightarrow> number \<Rightarrow> number \<Rightarrow> BBox" where
  "shiftCoordinates b imageWidth imageHeight = (case b of (x1, y1, x2, y2) \<Rightarrow>
     let bboxWidth = num_sub x2 x1;
         bboxHeight = num_sub y2 y1;
         (x1, x2) = (if num_lt x1 (Fin 0) then (Fin 0, num_add (Fin 0) bboxWidth) else (x1, x2));
         (y1, y2) = (if num_lt y1 (Fin 0) then (Fin 0, num_add (Fin 0) bboxHeight) else (y1, y2));
         (x1, x2) = (if num_gt x2 imageWidth then (num_sub imageWidth bboxWidth, imageWidth)
                     else (x1, x2));
         (y1, y2) = (if num_gt y2 imageHeight then (num_sub imageHeight bboxHeight, imageHeight)
                     else (y1, y2))
     in (x1, y1, x2, y2))"

section \<open>Crop planning\<close>

definition getMaxCropSize :: "number \<Rightarrow> number \<Rightarrow> number \<Rightarrow> Vector2" where
  "getMaxCropSize imageWidth imageHeight whAspectRatio =
     (if num_gt (num_div imageWidth imageHeight) whAspectRatio
      then (num_mul imageHeight whAspectRatio, imageHeight)
      else (imageWidth, num_div imageWidth whAspectRatio))"


definition getRelativeCropRegion ::
  "number \<Rightarrow> number \<Rightarrow> number \<Rightarrow> BBox \<Rightarrow> number \<Rightarrow> Region" where
  "getRelativeCropRegion imageWidth imageHeight whAspectRatio b zoom =
     (case b of (x1, y1, x2, y2) \<Rightarrow>
      let x = num_div (num_add x1 x2) (Fin 2);
          y = num_div (num_add y1 y2) (Fin 2);
          xp = num_div x imageWidth;
          yp = num_div y imageHeight
      in case getMaxCropSize imageWidth imageHeight whAspectRatio of (cropWidth, cropHeight) \<Rightarrow>
      let left0 = num_sub x (num_mul xp cropWidth);
          top0 = num_sub y (num_mul yp cropHeight);
          width0 = cropWidth;
          height0 = cropHeight;
          zoom = num_div (Fin 1) zoom;
          (left1, top1, width1, height1) =
            (if num_lt zoom (Fin 1)
             then (num_sub x (num_mul (num_sub x left0) zoom),
                   num_sub y (num_mul (num_sub y top0) zoom),
                   num_mul width0 zoom,
                   num_mul height0 zoom)
             else (left0, top0, width0, height0))
      in \<lparr> left = Math_round left1, top' = Math_round top1,
           width = Math_round width1, height = Math_round height1 \<rparr>)"

section \<open>Resolution matching\<close>


section \<open>Notions of the specification\<close>

text \<open>A box all of whose coordinates are finite numbers.\<close>

definition finite_bbox :: "BBox \<Rightarrow> bool" where
  "finite_bbox b = (case b of (x1, y1, x2, y2) \<Rightarrow>
     is_finite x1 \<and> is_finite y1 \<and> is_finite x2 \<and> is_finite y2)"




section \<open>Arithmetic on finite numbers\<close>

lemma num_sub_Fin [simp]: "num_sub (Fin x) (Fin y) = Fin (x - y)"
  by (simp add: num_sub_def)

lemma num_gt_Fin [simp]: "num_gt (Fin x) (Fin y) = (y < x)"
  by (simp add: num_gt_def)

lemma num_le_Fin [simp]: "num_le (Fin x) (Fin y) = (x \<le> y)"
  by (auto simp: num_le_def)

lemma Math_max_Fin [simp]: "Math_max (Fin x) (Fin y) = Fin (max x y)"
  by (simp add: Math_max_def max_def)

lemma Math_min_Fin [simp]: "Math_min (Fin x) (Fin y) = Fin (min x y)"
  by (simp add: Math_min_def min_def)

lemma getMaxCropSize_Fin:
  assumes "0 < H" and "0 < r"
  shows "getMaxCropSize (Fin W) (Fin H) (Fin r)
         = (if r < W / H then (Fin (H * r), Fin H) else (Fin W, Fin (W / r)))"
  using assms by (simp add: getMaxCropSize_def)

text \<open>
  The current planner on finite inputs, for a zoom of at least 1: the unrounded window
  has the size of the maximal crop divided by the zoom.
\<close>

lemma getRelativeCropRegion_Fin:
  assumes crop: "getMaxCropSize (Fin W) (Fin H) r = (Fin cw, Fin ch)"
    and "0 < W" and "0 < H" and "1 \<le> z"
  shows "getRelativeCropRegion (Fin W) (Fin H) r (Fin x1, Fin y1, Fin x2, Fin y2) (Fin z)
         = \<lparr> left = Math_round (Fin ((x1 + x2) / 2 - (x1 + x2) / 2 / W * cw / z)),
             top' = Math_round (Fin ((y1 + y2) / 2 - (y1 + y2) / 2 / H * ch / z)),
             width = Math_round (Fin (cw / z)),
             height = Math_round (Fin (ch / z)) \<rparr>"
proof (cases "z = 1")
  case True
  with assms show ?thesis
    by (simp add: getRelativeCropRegion_def Let_def)
next
  case False
  with assms have "1 < z" by simp
  then have "1 / z < 1" by simp
  with assms \<open>1 < z\<close> show ?thesis
    by (simp add: getRelativeCropRegion_def Let_def)
qed




lemma is_finite_iff: "is_finite a = (\<exists>x. a = Fin x)"
  by (cases a) simp_all

lemma finite_bbox_area:
  assumes "finite_bbox b"
  shows "\<exists>a. getBBoxArea b = Fin a"
  using assms
  by (cases b) (auto simp: finite_bbox_def getBBoxArea_def is_finite_iff)

lemma foldl_keep_smaller:
  fixes k :: "'a \<Rightarrow> real"
  assumes "\<And>p c. p \<in> set (x # xs) \<Longrightarrow> c \<in> set (x # xs) \<Longrightarrow>
             f p c = (if k p < k c then p else c)"
  shows "\<exists>pre post. x # xs = pre @ foldl f x xs # post
           \<and> (\<forall>c\<in>set pre. k (foldl f x xs) \<le> k c)
           \<and> (\<forall>c\<in>set post. k (foldl f x xs) < k c)"
  using assms
proof (induction xs rule: rev_induct)
  case Nil
  have "[x] = [] @ x # []" by simp
  then show ?case by force
next
  case (snoc y xs)
  let ?r = "foldl f x xs"
  from snoc obtain pre post where
    split: "x # xs = pre @ ?r # post"
    and pre: "\<forall>c\<in>set pre. k ?r \<le> k c"
    and post: "\<forall>c\<in>set post. k ?r < k c"
    by auto
  have "?r \<in> set (x # xs)" by (subst split) simp
  then have step: "f ?r y = (if k ?r < k y then ?r else y)"
    by (intro snoc.prems) auto
  show ?case
  proof (cases "k ?r < k y")
    case True
    with step have res: "foldl f x (xs @ [y]) = ?r" by simp
    have "x # xs @ [y] = pre @ ?r # (post @ [y])" using split by simp
    moreover have "\<forall>c\<in>set (post @ [y]). k ?r < k c" using post True by simp
    ultimately show ?thesis using pre unfolding res by blast
  next
    case False
    with step have res: "foldl f x (xs @ [y]) = y" by simp
    have all: "\<forall>c\<in>set (x # xs). k y \<le> k c"
    proof
      fix c assume "c \<in> set (x # xs)"
      then have "c \<in> set pre \<or> c = ?r \<or> c \<in> set post"
        by (subst (asm) split) auto
      with pre post have "k ?r \<le> k c" by force
      with False show "k y \<le> k c" by simp
    qed
    have "x # xs @ [y] = (x # xs) @ y # []" by simp
    with all show ?thesis unfolding res by (metis empty_iff list.set(1))
  qed
qed



section \<open>Linear interpolation of boxes\<close>


section \<open>Clipping\<close>

text \<open>
  Claim C4, as stated, fails: \<open>clipBBox\<close> clamps each coordinate on its own, so an
  inverted box that lies inside the frame is returned as it is, still inverted. Here
  \<open>x2 = 3 < 5 = x1\<close> in the result.
\<close>

theorem clipBBox_inverted_counterexample:
  "clipBBox (Fin 5, Fin 1, Fin 3, Fin 4) (Fin 10) (Fin 10) = (Fin 5, Fin 1, Fin 3, Fin 4)
   \<and> (case clipBBox (Fin 5, Fin 1, Fin 3, Fin 4) (Fin 10) (Fin 10) of
        (x1, y1, x2, y2) \<Rightarrow> num_lt x2 x1)"
  by (simp add: clipBBox_def)

text \<open>
  Claim C4, amended. For every well-formed input box (\<open>x1 \<le> x2\<close> and \<open>y1 \<le> y2\<close>),
  also one that lies fully outside the frame, \<open>clipBBox\<close> returns a well-formed box;
  when the input box lies fully outside the frame (to the left of it, to the right of it,
  above it or below it), the area of the result is 0.
\<close>

theorem clipBBox_well_formed:
  assumes "x1 \<le> x2" and "y1 \<le> y2"
  shows "\<exists>a b c d.
      clipBBox (Fin x1, Fin y1, Fin x2, Fin y2) (Fin W) (Fin H) = (Fin a, Fin b, Fin c, Fin d)
      \<and> a \<le> c \<and> b \<le> d
      \<and> (x2 \<le> 0 \<or> W \<le> x1 \<or> y2 \<le> 0 \<or> H \<le> y1 \<longrightarrow>
           getBBoxArea (clipBBox (Fin x1, Fin y1, Fin x2, Fin y2) (Fin W) (Fin H)) = Fin 0)"
  using assms by (auto simp: clipBBox_def getBBoxArea_def Let_def max_def min_def)

theorem clipBBox_well_formed_witness:
  "\<exists>a b c d.
      clipBBox (Fin 20, Fin 2, Fin 30, Fin 5) (Fin 10) (Fin 10) = (Fin a, Fin b, Fin c, Fin d)
      \<and> a \<le> c \<and> b \<le> d
      \<and> getBBoxArea (clipBBox (Fin 20, Fin 2, Fin 30, Fin 5) (Fin 10) (Fin 10)) = Fin 0"
  using clipBBox_well_formed [where ?x1.0 = 20 and ?x2.0 = 30 and ?y1.0 = 2 and ?y2.0 = 5
      and W = 10 and H = 10]
  by simp

section \<open>Shifting a box into the frame\<close>

text \<open>
  Claim C7. For every well-formed box whose width is at most \<open>imageWidth\<close> and whose
  height is at most \<open>imageHeight\<close>, \<open>shiftCoordinates\<close> returns a box of the same
  width and height that lies within \<open>[0, imageWidth] \<times> [0, imageHeight]\<close>. Each axis is
  handled on its own, the left (top) overrun before the right (bottom) one: the new
  \<open>x1\<close> depends on \<open>x1\<close>, \<open>x2\<close> and \<open>imageWidth\<close> only, and is 0 when \<open>x1 < 0\<close>,
  else \<open>imageWidth - width\<close> when \<open>x2 > imageWidth\<close>, else \<open>x1\<close>.
\<close>

theorem shiftCoordinates_in_bounds:
  assumes "x1 \<le> x2" and "y1 \<le> y2" and "x2 - x1 \<le> W" and "y2 - y1 \<le> H"
  shows "\<exists>a b c d.
      shiftCoordinates (Fin x1, Fin y1, Fin x2, Fin y2) (Fin W) (Fin H)
        = (Fin a, Fin b, Fin c, Fin d)
      \<and> c - a = x2 - x1 \<and> d - b = y2 - y1
      \<and> 0 \<le> a \<and> c \<le> W \<and> 0 \<le> b \<and> d \<le> H
      \<and> a = (if x1 < 0 then 0 else if W < x2 then W - (x2 - x1) else x1)
      \<and> b = (if y1 < 0 then 0 else if H < y2 then H - (y2 - y1) else y1)"
  using assms by (auto simp: shiftCoordinates_def Let_def)

theorem shiftCoordinates_in_bounds_witness:
  "shiftCoordinates (Fin (- 5), Fin 95, Fin 15, Fin 115) (Fin 100) (Fin 100)
     = (Fin 0, Fin 80, Fin 20, Fin 100)"
proof -
  obtain a b c d :: real where
    res: "shiftCoordinates (Fin (- 5), Fin 95, Fin 15, Fin 115) (Fin 100) (Fin 100)
            = (Fin a, Fin b, Fin c, Fin d)"
    and size: "c - a = 15 - (- 5)" "d - b = 115 - 95"
    and pos: "a = (if (- 5 :: real) < 0 then 0 else if (100 :: real) < 15 then 100 - (15 - (- 5)) else - 5)"
      "b = (if (95 :: real) < 0 then 0 else if (100 :: real) < 115 then 100 - (115 - 95) else 95)"
    using shiftCoordinates_in_bounds [where ?x1.0 = "- 5" and ?x2.0 = 15 and ?y1.0 = 95
        and ?y2.0 = 115 and W = 100 and H = 100]
    by auto
  from pos have "a = 0" and "b = 80" by simp_all
  with size have "c = 20" and "d = 100" by simp_all
  with res \<open>a = 0\<close> \<open>b = 80\<close> show ?thesis by simp
qed

section \<open>The interpolant of a box and back\<close>

text \<open>
  Claim C3, as stated, fails: a box as wide as the image makes the divisor of the x
  component zero, and nothing in \<open>getAlphaFromBBox\<close> guards the division. For the box
  \<open>[0, 0, 10, 5]\<close> in a 10 by 10 image the x component is \<open>0 / 0\<close>, which is \<open>NaN\<close>,
  not 0.
\<close>

theorem getAlphaFromBBox_full_size_counterexample:
  "getAlphaFromBBox (Fin 0, Fin 0, Fin 10, Fin 5) (Fin 10) (Fin 10) = (NaN, Fin 0)
   \<and> fst (getAlphaFromBBox (Fin 0, Fin 0, Fin 10, Fin 5) (Fin 10) (Fin 10)) \<noteq> Fin 0"
  by (simp add: getAlphaFromBBox_def signed_inf_def)

text \<open>
  Claim C3, amended. For every box with finite coordinates whose width equals the image
  width, the x component of \<open>getAlphaFromBBox\<close> is the quotient \<open>x1 / 0\<close>: \<open>NaN\<close> when
  \<open>x1 = 0\<close>, plus infinity when \<open>x1 > 0\<close> and minus infinity when \<open>x1 < 0\<close>; and
  likewise the y component when the height of the box equals the image height.
\<close>

theorem getAlphaFromBBox_zero_divisor:
  "(x2 - x1 = W \<longrightarrow>
      fst (getAlphaFromBBox (Fin x1, Fin y1, Fin x2, Fin y2) (Fin W) (Fin H))
        = (if x1 = 0 then NaN else if 0 < x1 then PosInf else NegInf))
   \<and> (y2 - y1 = H \<longrightarrow>
      snd (getAlphaFromBBox (Fin x1, Fin y1, Fin x2, Fin y2) (Fin W) (Fin H))
        = (if y1 = 0 then NaN else if 0 < y1 then PosInf else NegInf))"
  by (simp add: getAlphaFromBBox_def signed_inf_def Let_def)

theorem getAlphaFromBBox_zero_divisor_witness:
  "fst (getAlphaFromBBox (Fin 0, Fin 3, Fin 10, Fin 13) (Fin 10) (Fin 10)) = NaN
   \<and> snd (getAlphaFromBBox (Fin 0, Fin 3, Fin 10, Fin 13) (Fin 10) (Fin 10)) = PosInf"
  using getAlphaFromBBox_zero_divisor [where ?x1.0 = 0 and ?x2.0 = 10 and ?y1.0 = 3
      and ?y2.0 = 13 and W = 10 and H = 10]
  by simp



section \<open>The biggest face\<close>

text \<open>
  Claim C10. On an empty list \<open>extractBiggestFace\<close> throws (the \<^verbatim>\<open>TypeError\<close> of
  \<^verbatim>\<open>reduce\<close>). On a nonempty list of faces whose boxes have finite coordinates it
  returns an element of the list, and the area of the box of that element, as
  \<open>getBBoxArea\<close> computes it, is at least the area of the box of every element.
\<close>

theorem extractBiggestFace_biggest:
  "extractBiggestFace [] = Inl TypeError
   \<and> (faces \<noteq> [] \<and> (\<forall>f\<in>set faces. finite_bbox (bbox f)) \<longrightarrow>
        (\<exists>f. extractBiggestFace faces = Inr f \<and> f \<in> set faces
           \<and> (\<forall>g\<in>set faces. num_le (getBBoxArea (bbox g)) (getBBoxArea (bbox f)))))"
proof (intro conjI impI)
  show "extractBiggestFace [] = Inl TypeError"
    by (simp add: extractBiggestFace_def)
next
  assume a: "faces \<noteq> [] \<and> (\<forall>f\<in>set faces. finite_bbox (bbox f))"
  then obtain x xs where faces: "faces = x # xs" by (cases faces) auto
  define k where "k f = (case getBBoxArea (bbox f) of Fin a \<Rightarrow> - a | _ \<Rightarrow> 0)" for f :: Face
  define step where "step = (\<lambda>prev curr :: Face.
     let prevArea = getBBoxArea (bbox prev);
         currArea = getBBoxArea (bbox curr)
     in if num_gt prevArea currArea then prev else curr)"
  have area: "getBBoxArea (bbox f) = Fin (- k f)" if "f \<in> set (x # xs)" for f
  proof -
    from that a faces have "finite_bbox (bbox f)" by auto
    then obtain v where "getBBoxArea (bbox f) = Fin v" using finite_bbox_area by blast
    then show ?thesis by (simp add: k_def)
  qed
  have "step p c = (if k p < k c then p else c)"
    if "p \<in> set (x # xs)" and "c \<in> set (x # xs)" for p c
    using that by (simp add: step_def Let_def area)
  from foldl_keep_smaller [of x xs step k, OF this]
  obtain pre post where
    split: "x # xs = pre @ foldl step x xs # post"
    and pre: "\<forall>c\<in>set pre. k (foldl step x xs) \<le> k c"
    and post: "\<forall>c\<in>set post. k (foldl step x xs) < k c"
    by blast
  let ?r = "foldl step x xs"
  have res: "extractBiggestFace faces = Inr ?r"
    by (simp add: extractBiggestFace_def faces step_def)
  have mem: "?r \<in> set faces" unfolding faces by (subst split) simp
  have "num_le (getBBoxArea (bbox g)) (getBBoxArea (bbox ?r))" if "g \<in> set faces" for g
  proof -
    from that have "g \<in> set pre \<or> g = ?r \<or> g \<in> set post"
      unfolding faces by (subst (asm) split) auto
    with pre post have "k ?r \<le> k g" by force
    moreover have "getBBoxArea (bbox g) = Fin (- k g)" using that faces area by simp
    moreover have "getBBoxArea (bbox ?r) = Fin (- k ?r)" using mem faces area by simp
    ultimately show ?thesis by simp
  qed
  with res mem show "\<exists>f. extractBiggestFace faces = Inr f \<and> f \<in> set faces
           \<and> (\<forall>g\<in>set faces. num_le (getBBoxArea (bbox g)) (getBBoxArea (bbox f)))"
    by blast
qed

theorem extractBiggestFace_biggest_witness:
  "\<exists>f. extractBiggestFace
          [\<lparr> embedding = [], bbox = (Fin 0, Fin 0, Fin 2, Fin 2),
             det_score = Fin 1, gender = Fin 0, age = Fin 30 \<rparr>,
           \<lparr> embedding = [], bbox = (Fin 1, Fin 1, Fin 4, Fin 5),
             det_score = Fin 1, gender = Fin 1, age = Fin 40 \<rparr>] = Inr f
       \<and> f \<in> set [\<lparr> embedding = [], bbox = (Fin 0, Fin 0, Fin 2, Fin 2),
                     det_score = Fin 1, gender = Fin 0, age = Fin 30 \<rparr>,
                   \<lparr> embedding = [], bbox = (Fin 1, Fin 1, Fin 4, Fin 5),
                     det_score = Fin 1, gender = Fin 1, age = Fin 40 \<rparr>]
       \<and> (\<forall>g\<in>set [\<lparr> embedding = [], bbox = (Fin 0, Fin 0, Fin 2, Fin 2),
                       det_score = Fin 1, gender = Fin 0, age = Fin 30 \<rparr>,
                     \<lparr> embedding = [], bbox = (Fin 1, Fin 1, Fin 4, Fin 5),
                       det_score = Fin 1, gender = Fin 1, age = Fin 40 \<rparr>].
             num_le (getBBoxArea (bbox g)) (getBBoxArea (bbox f)))"
proof -
  let ?faces = "[\<lparr> embedding = [], bbox = (Fin 0, Fin 0, Fin 2, Fin 2),
                   det_score = Fin 1, gender = Fin 0, age = Fin 30 \<rparr>,
                 \<lparr> embedding = [], bbox = (Fin 1, Fin 1, Fin 4, Fin 5),
                   det_score = Fin 1, gender = Fin 1, age = Fin 40 \<rparr>]"
  have "?faces \<noteq> [] \<and> (\<forall>f\<in>set ?faces. finite_bbox (bbox f))"
    by (simp add: finite_bbox_def)
  with extractBiggestFace_biggest [of ?faces] show ?thesis by blast
qed

section \<open>The crop planners\<close>








text \<open>
  Claim C6. For every image of positive integer width \<open>W\<close> and height \<open>H\<close>, every
  region of interest whose middle point is the middle point of the image, the target
  aspect ratio \<open>W / H\<close> of the image itself and the zoom 1, \<open>getRelativeCropRegion\<close>
  returns the full image: left 0, top 0, width \<open>W\<close>, height \<open>H\<close>.
\<close>

theorem getRelativeCropRegion_full_image:
  fixes W H :: int
  assumes "0 < W" and "0 < H"
    and "x1 + x2 = of_int W" and "y1 + y2 = of_int H"
    and "r = of_int W / of_int H"
  shows "getRelativeCropRegion (Fin (of_int W)) (Fin (of_int H)) (Fin r)
           (Fin x1, Fin y1, Fin x2, Fin y2) (Fin 1)
         = \<lparr> left = Fin 0, top' = Fin 0, width = Fin (of_int W), height = Fin (of_int H) \<rparr>"
proof -
  have r: "0 < r" using assms by simp
  have crop: "getMaxCropSize (Fin (of_int W)) (Fin (of_int H)) (Fin r)
              = (Fin (of_int W), Fin (of_int H))"
    using assms r by (simp add: getMaxCropSize_Fin)
  have "getRelativeCropRegion (Fin (of_int W)) (Fin (of_int H)) (Fin r)
           (Fin x1, Fin y1, Fin x2, Fin y2) (Fin 1)
        = \<lparr> left = Math_round (Fin ((x1 + x2) / 2 - (x1 + x2) / 2 / of_int W * of_int W / 1)),
             top' = Math_round (Fin ((y1 + y2) / 2 - (y1 + y2) / 2 / of_int H * of_int H / 1)),
             width = Math_round (Fin (of_int W / 1)),
             height = Math_round (Fin (of_int H / 1)) \<rparr>"
    using assms by (intro getRelativeCropRegion_Fin [OF crop]) simp_all
  also have "\<dots> = \<lparr> left = Fin 0, top' = Fin 0,
                      width = Fin (of_int W), height = Fin (of_int H) \<rparr>"
    using assms by simp
  finally show ?thesis .
qed

theorem getRelativeCropRegion_full_image_witness:
  "getRelativeCropRegion (Fin 4) (Fin 2) (Fin 2) (Fin 1, Fin 0, Fin 3, Fin 2) (Fin 1)
     = \<lparr> left = Fin 0, top' = Fin 0, width = Fin 4, height = Fin 2 \<rparr>"
proof -
  have "(0::int) < 4" and "(0::int) < 2"
    and "(1::real) + 3 = of_int 4" and "(0::real) + 2 = of_int 2"
    and "(2::real) = of_int 4 / of_int 2"
    by simp_all
  from getRelativeCropRegion_full_image [OF this] show ?thesis
    by simp
qed

section \<open>The closest supported resolution\<close>




end
